theory Spec2Isabelle
  imports Complex_Main "HOL-Library.Word"
begin

section \<open>Numbers\<close>

text \<open>
  The calculator exists twice in the repository: \<^verbatim>\<open>frame/script.js\<close> (the web page) and
  \<^verbatim>\<open>source/GradeCalculator.java\<close>. Both are embedded below, the JavaScript functions
  under their own names and the Java methods with the prefix \<open>GradeCalculator_\<close>.

  A finite JavaScript number and a finite Java \<^verbatim>\<open>double\<close> are modelled as a
  \<^typ>\<open>real\<close>, with exact \<open>+\<close>, \<open>*\<close> and \<open>/\<close>: the rounding of a result to 53 bits is
  not modelled. Comparisons of doubles are exact, so every guard of the source is
  modelled as it is. A Java \<^verbatim>\<open>int\<close> is a 32-bit word read in two's complement, so \<open>+\<close>
  wraps around as it does in Java.
\<close>

type_synonym jint = "32 word"

text \<open>
  The totals that the JavaScript \<^verbatim>\<open>calculateSemesterGPA\<close> adds up over a list of courses
  can leave the range of the doubles. They are values of the type \<open>number\<close>: a finite
  value, \<^verbatim>\<open>Infinity\<close>, \<^verbatim>\<open>-Infinity\<close> or \<^verbatim>\<open>NaN\<close>. A result of an operation on finite
  values is infinite when its magnitude reaches \<open>2^1024 - 2^970\<close>, the least magnitude
  that rounding to nearest takes to infinity (the largest double is \<open>2^1024 - 2^971\<close>);
  otherwise it is kept exact. The operations follow IEEE 754 on the infinities and on
  \<^verbatim>\<open>NaN\<close>. There is one zero, read as \<open>+0\<close>.
\<close>

datatype number = Finite real | PosInfinity | NegInfinity | NaN

definition overflowThreshold :: real where
  "overflowThreshold = 2 ^ 1024 - 2 ^ 970"

definition toNumber :: "real \<Rightarrow> number" where
  "toNumber r =
     (if r \<ge> overflowThreshold then PosInfinity
      else if r \<le> - overflowThreshold then NegInfinity
      else Finite r)"

text \<open>\<^verbatim>\<open>x + y\<close> on numbers.\<close>

fun addNumber :: "number \<Rightarrow> number \<Rightarrow> number" where
  "addNumber (Finite a) (Finite b) = toNumber (a + b)"
| "addNumber NaN y = NaN"
| "addNumber x NaN = NaN"
| "addNumber PosInfinity NegInfinity = NaN"
| "addNumber NegInfinity PosInfinity = NaN"
| "addNumber PosInfinity y = PosInfinity"
| "addNumber x PosInfinity = PosInfinity"
| "addNumber NegInfinity y = NegInfinity"
| "addNumber x NegInfinity = NegInfinity"

text \<open>\<^verbatim>\<open>x > 0\<close> on a number: false for \<^verbatim>\<open>NaN\<close>.\<close>

fun isPositive :: "number \<Rightarrow> bool" where
  "isPositive (Finite a) = (a > 0)"
| "isPositive PosInfinity = True"
| "isPositive NegInfinity = False"
| "isPositive NaN = False"

text \<open>\<^verbatim>\<open>x / y\<close> on numbers.\<close>

fun divideNumber :: "number \<Rightarrow> number \<Rightarrow> number" where
  "divideNumber NaN y = NaN"
| "divideNumber x NaN = NaN"
| "divideNumber (Finite a) (Finite b) =
     (if b = 0 then (if a > 0 then PosInfinity else if a < 0 then NegInfinity else NaN)
      else toNumber (a / b))"
| "divideNumber (Finite a) y = Finite 0"
| "divideNumber PosInfinity (Finite b) = (if b \<ge> 0 then PosInfinity else NegInfinity)"
| "divideNumber NegInfinity (Finite b) = (if b \<ge> 0 then NegInfinity else PosInfinity)"
| "divideNumber x y = NaN"

section \<open>The JavaScript calculator (frame/script.js)\<close>

subsection \<open>Grading scale and grade lookup\<close>

record GradeInfo =
  grade :: string
  point :: real

text \<open>An entry of \<^verbatim>\<open>GRADING_SCALE\<close>: \<^verbatim>\<open>{ min, max, grade, point }\<close>.\<close>

record GradeBand = GradeInfo +
  minMark :: real
  maxMark :: real

definition GRADING_SCALE :: "GradeBand list" where
  "GRADING_SCALE =
    [ \<lparr>grade = ''A+'', point = 4.0,  minMark = 90, maxMark = 100\<rparr>,
      \<lparr>grade = ''A'',  point = 3.75, minMark = 85, maxMark = 89\<rparr>,
      \<lparr>grade = ''B+'', point = 3.5,  minMark = 80, maxMark = 84\<rparr>,
      \<lparr>grade = ''B'',  point = 3.25, minMark = 75, maxMark = 79\<rparr>,
      \<lparr>grade = ''C+'', point = 3.0,  minMark = 70, maxMark = 74\<rparr>,
      \<lparr>grade = ''C'',  point = 2.75, minMark = 65, maxMark = 69\<rparr>,
      \<lparr>grade = ''D+'', point = 2.5,  minMark = 60, maxMark = 64\<rparr>,
      \<lparr>grade = ''D'',  point = 2.25, minMark = 50, maxMark = 59\<rparr>,
      \<lparr>grade = ''F'',  point = 0.0,  minMark = 0,  maxMark = 49\<rparr> ]"

text \<open>
  The \<^verbatim>\<open>for (let scale of GRADING_SCALE)\<close> loop of \<^verbatim>\<open>marksToGrade\<close>: the first band
  that contains the marks is returned from inside the loop; \<open>None\<close> means that the
  loop ran to its end without returning.
\<close>

fun scanScale :: "real \<Rightarrow> GradeBand list \<Rightarrow> GradeInfo option" where
  "scanScale marks [] = None"
| "scanScale marks (scale # rest) =
     (if marks \<ge> minMark scale \<and> marks \<le> maxMark scale
      then Some \<lparr>grade = grade scale, point = point scale\<rparr>
      else scanScale marks rest)"

definition marksToGrade :: "real \<Rightarrow> GradeInfo" where
  "marksToGrade marks =
     (if marks < 0 \<or> marks > 100 then \<lparr>grade = ''Invalid'', point = 0.0\<rparr>
      else case scanScale marks GRADING_SCALE of
             Some gradeInfo \<Rightarrow> gradeInfo
           | None \<Rightarrow> \<lparr>grade = ''F'', point = 0.0\<rparr>)"

subsection \<open>Semester GPA\<close>

record Course =
  title :: string
  credits :: real
  marks :: real

text \<open>
  The body of \<^verbatim>\<open>courses.forEach\<close> in \<^verbatim>\<open>calculateSemesterGPA\<close>, on the pair
  (\<^verbatim>\<open>totalPoints\<close>, \<^verbatim>\<open>totalCredits\<close>) that the loop updates. The grade point and the
  credits of a course are finite; their product and the two totals are numbers.
\<close>

definition addCourseTotals :: "number \<times> number \<Rightarrow> Course \<Rightarrow> number \<times> number" where
  "addCourseTotals acc course =
     (let gradeInfo = marksToGrade (marks course)
      in (addNumber (fst acc) (toNumber (point gradeInfo * credits course)),
          addNumber (snd acc) (Finite (credits course))))"

definition calculateSemesterGPA :: "Course list \<Rightarrow> number" where
  "calculateSemesterGPA courses =
     (if length courses = 0 then Finite 0.0
      else let totals = foldl addCourseTotals (Finite 0.0, Finite 0) courses;
               totalPoints = fst totals;
               totalCredits = snd totals
           in if isPositive totalCredits then divideNumber totalPoints totalCredits
              else Finite 0.0)"

subsection \<open>Cumulative CGPA\<close>

definition calculateCumulativeCGPA :: "real \<Rightarrow> real \<Rightarrow> real \<Rightarrow> real \<Rightarrow> real" where
  "calculateCumulativeCGPA prevCGPA prevCredits currentGPA currentCredits =
     (let totalPoints = (prevCGPA * prevCredits) + (currentGPA * currentCredits);
          totalCredits = prevCredits + currentCredits
      in if totalCredits > 0 then totalPoints / totalCredits else 0.0)"

subsection \<open>Academic status\<close>

text \<open>
  \<^verbatim>\<open>getAcademicStatus\<close> returns \<^verbatim>\<open>{ text, class }\<close>. The text of the source is the
  wording of the label, followed for five of the six labels by a space and a pictograph
  (a trophy, a star, a check mark, a warning sign). The record keeps the three parts
  apart: \<open>statusText\<close> is the wording, \<open>statusPictograph\<close> the pictograph that follows
  it, if any, and \<open>statusClass\<close> the field \<^verbatim>\<open>class\<close>.
\<close>

datatype Pictograph = Trophy | Star | CheckMark | WarningSign

record StatusInfo =
  statusText :: string
  statusPictograph :: "Pictograph option"
  statusClass :: string

definition getAcademicStatus :: "real \<Rightarrow> StatusInfo" where
  "getAcademicStatus cgpa =
     (if cgpa \<ge> 3.75 then
        \<lparr>statusText = ''Dean's List'', statusPictograph = Some Trophy,
         statusClass = ''status-excellent''\<rparr>
      else if cgpa \<ge> 3.5 then
        \<lparr>statusText = ''Excellent Standing'', statusPictograph = Some Star,
         statusClass = ''status-excellent''\<rparr>
      else if cgpa \<ge> 3.0 then
        \<lparr>statusText = ''Good Standing'', statusPictograph = Some CheckMark,
         statusClass = ''status-good''\<rparr>
      else if cgpa \<ge> 2.5 then
        \<lparr>statusText = ''Satisfactory'', statusPictograph = None,
         statusClass = ''status-good''\<rparr>
      else if cgpa \<ge> 2.0 then
        \<lparr>statusText = ''Warning'', statusPictograph = Some WarningSign,
         statusClass = ''status-warning''\<rparr>
      else
        \<lparr>statusText = ''Academic Probation'', statusPictograph = Some WarningSign,
         statusClass = ''status-probation''\<rparr>)"

subsection \<open>The page's checks\<close>

text \<open>
  A row of the form as \<^verbatim>\<open>getAllCourses\<close> reads it: the value of the title field, and
  the results of \<^verbatim>\<open>parseFloat\<close> on the credits and the marks fields, \<open>None\<close> for
  \<^verbatim>\<open>NaN\<close>.
\<close>

record CourseRow =
  titleValue :: string
  creditsValue :: "real option"
  marksValue :: "real option"

text \<open>
  \<^verbatim>\<open>String.prototype.trim\<close>: white space and line terminators are removed at both ends
  (here the ones of a single byte: tab, line feed, vertical tab, form feed, carriage
  return and space).
\<close>

definition isWhiteSpace :: "char \<Rightarrow> bool" where
  "isWhiteSpace c \<longleftrightarrow>
     c \<in> set [CHR 0x09, CHR 0x0A, CHR 0x0B, CHR 0x0C, CHR 0x0D, CHR 0x20]"

definition trim :: "string \<Rightarrow> string" where
  "trim s = rev (dropWhile isWhiteSpace (rev (dropWhile isWhiteSpace s)))"

text \<open>
  The body of \<^verbatim>\<open>courseRows.forEach\<close> in \<^verbatim>\<open>getAllCourses\<close>: the course that is pushed
  for a row, if any. The title is trimmed and must not be empty, the credits and the
  marks must be numbers, the credits positive and the marks in [0, 100].
\<close>

definition courseOfRow :: "CourseRow \<Rightarrow> Course option" where
  "courseOfRow row =
     (let title' = trim (titleValue row) in
      case (creditsValue row, marksValue row) of
        (Some credits', Some marks') \<Rightarrow>
          if title' \<noteq> [] \<and> credits' > 0 \<and> marks' \<ge> 0 \<and> marks' \<le> 100
          then Some \<lparr>title = title', credits = credits', marks = marks'\<rparr>
          else None
      | _ \<Rightarrow> None)"

definition getAllCourses :: "CourseRow list \<Rightarrow> Course list" where
  "getAllCourses courseRows = List.map_filter courseOfRow courseRows"

text \<open>
  \<^verbatim>\<open>calculateCGPA\<close>, the only caller of \<^verbatim>\<open>calculateSemesterGPA\<close>,
  \<^verbatim>\<open>calculateCumulativeCGPA\<close> and \<^verbatim>\<open>getAcademicStatus\<close>, up to the point where its
  checks are over. Its arguments are what it reads from the page: the current CGPA and
  the completed credits (after \<^verbatim>\<open>parseFloat(..) || 0\<close> and \<^verbatim>\<open>parseInt(..) || 0\<close>) and
  the course rows of the form. It ends in an alert, or it goes on to calculate and to
  display the results for the courses of \<^verbatim>\<open>getAllCourses\<close>; that part is not modelled
  further.
\<close>

datatype PageOutcome =
    Alert string
  | CalculatesFor "Course list"

definition calculateCGPA :: "real \<Rightarrow> real \<Rightarrow> CourseRow list \<Rightarrow> PageOutcome" where
  "calculateCGPA currentCGPA completedCredits courseRows =
     (if currentCGPA < 0 \<or> currentCGPA > 4 then
        Alert ''Current CGPA must be between 0.0 and 4.0''
      else if completedCredits < 0 then
        Alert ''Completed credits cannot be negative''
      else let courses = getAllCourses courseRows in
        if length courses = 0 then
          Alert ''Please add at least one course with valid information''
        else CalculatesFor courses)"

section \<open>The Java calculator (source/GradeCalculator.java)\<close>

datatype Exception = IllegalArgumentException string

record GradeCalculator_GradeInfo =
  letterGrade :: string
  gradePoint :: real

record GradeCalculator_Course =
  getTitle :: string
  getCredits :: jint
  getMarks :: real

text \<open>
  \<^verbatim>\<open>GRADE_SCALE\<close> is a \<^verbatim>\<open>TreeMap<Integer, GradeInfo>\<close>, filled once by the static
  initialiser: here the list of its entries. \<open>floorEntry\<close> is the TreeMap query of that
  name: the entry with the greatest key that is at most the given key, or \<open>None\<close>
  (Java's \<^verbatim>\<open>null\<close>) when there is no such entry.
\<close>

definition GRADE_SCALE :: "(int \<times> GradeCalculator_GradeInfo) list" where
  "GRADE_SCALE =
    [ (90, \<lparr>letterGrade = ''A+'', gradePoint = 4.0\<rparr>),
      (85, \<lparr>letterGrade = ''A'',  gradePoint = 3.75\<rparr>),
      (80, \<lparr>letterGrade = ''B+'', gradePoint = 3.5\<rparr>),
      (75, \<lparr>letterGrade = ''B'',  gradePoint = 3.25\<rparr>),
      (70, \<lparr>letterGrade = ''C+'', gradePoint = 3.0\<rparr>),
      (65, \<lparr>letterGrade = ''C'',  gradePoint = 2.75\<rparr>),
      (60, \<lparr>letterGrade = ''D+'', gradePoint = 2.5\<rparr>),
      (50, \<lparr>letterGrade = ''D'',  gradePoint = 2.25\<rparr>),
      (0,  \<lparr>letterGrade = ''F'',  gradePoint = 0.0\<rparr>) ]"

fun floorEntry :: "(int \<times> 'v) list \<Rightarrow> int \<Rightarrow> (int \<times> 'v) option" where
  "floorEntry [] key = None"
| "floorEntry (entry # entries) key =
     (case floorEntry entries key of
        None \<Rightarrow> if fst entry \<le> key then Some entry else None
      | Some best \<Rightarrow> if fst entry \<le> key \<and> fst best < fst entry then Some entry else Some best)"

text \<open>
  The narrowing cast \<^verbatim>\<open>(int) marks\<close> of a double: rounding towards zero, and the
  nearest \<^verbatim>\<open>int\<close> for a value beyond the range of \<^verbatim>\<open>int\<close>.
\<close>

definition castToInt :: "real \<Rightarrow> int" where
  "castToInt d =
     (let truncated = (if d \<ge> 0 then \<lfloor>d\<rfloor> else \<lceil>d\<rceil>)
      in if truncated > 2147483647 then 2147483647
         else if truncated < - 2147483648 then - 2147483648
         else truncated)"

definition GradeCalculator_marksToGrade :: "real \<Rightarrow> Exception + GradeCalculator_GradeInfo" where
  "GradeCalculator_marksToGrade marks' =
     (if marks' < 0 \<or> marks' > 100 then
        Inl (IllegalArgumentException ''Marks must be between 0 and 100'')
      else case floorEntry GRADE_SCALE (castToInt marks') of
             Some entry \<Rightarrow> Inr (snd entry)
           | None \<Rightarrow> Inr \<lparr>letterGrade = ''F'', gradePoint = 0.0\<rparr>)"

text \<open>
  The \<^verbatim>\<open>for (Course course : courses)\<close> loop of \<^verbatim>\<open>calculateSemesterGPA\<close>:
  \<^verbatim>\<open>totalPoints\<close> is a double, \<^verbatim>\<open>totalCredits\<close> an \<^verbatim>\<open>int\<close>; an exception thrown by
  \<^verbatim>\<open>marksToGrade\<close> ends the loop and the method.
\<close>

fun semesterTotals ::
  "GradeCalculator_Course list \<Rightarrow> real \<times> jint \<Rightarrow> Exception + (real \<times> jint)" where
  "semesterTotals [] acc = Inr acc"
| "semesterTotals (course # rest) acc =
     (case GradeCalculator_marksToGrade (getMarks course) of
        Inl e \<Rightarrow> Inl e
      | Inr grade' \<Rightarrow>
          semesterTotals rest
            (fst acc + gradePoint grade' * real_of_int (sint (getCredits course)),
             snd acc + getCredits course))"

text \<open>The argument is \<open>None\<close> for Java's \<^verbatim>\<open>null\<close> array.\<close>

definition GradeCalculator_calculateSemesterGPA ::
  "GradeCalculator_Course list option \<Rightarrow> Exception + real" where
  "GradeCalculator_calculateSemesterGPA courses =
     (case courses of
        None \<Rightarrow> Inr 0.0
      | Some cs \<Rightarrow>
          if length cs = 0 then Inr 0.0
          else (case semesterTotals cs (0.0, 0) of
                  Inl e \<Rightarrow> Inl e
                | Inr totals \<Rightarrow>
                    if sint (snd totals) > 0
                    then Inr (fst totals / real_of_int (sint (snd totals)))
                    else Inr 0.0))"

definition GradeCalculator_calculateCumulativeCGPA ::
  "real \<Rightarrow> jint \<Rightarrow> real \<Rightarrow> jint \<Rightarrow> Exception + real" where
  "GradeCalculator_calculateCumulativeCGPA previousCGPA previousCredits currentGPA currentCredits =
     (if sint previousCredits < 0 \<or> sint currentCredits < 0 then
        Inl (IllegalArgumentException ''Credits cannot be negative'')
      else if previousCGPA < 0.0 \<or> previousCGPA > 4.0 then
        Inl (IllegalArgumentException ''CGPA must be between 0.0 and 4.0'')
      else let totalPoints = (previousCGPA * real_of_int (sint previousCredits))
                           + (currentGPA * real_of_int (sint currentCredits));
               totalCredits = previousCredits + currentCredits
           in if sint totalCredits > 0
              then Inr (totalPoints / real_of_int (sint totalCredits))
              else Inr 0.0)"

definition GradeCalculator_getAcademicStatus :: "real \<Rightarrow> string" where
  "GradeCalculator_getAcademicStatus cgpa =
     (if cgpa < 0.0 \<or> cgpa > 4.0 then ''Invalid CGPA''
      else if cgpa \<ge> 3.75 then ''Dean's List''
      else if cgpa \<ge> 3.5 then ''Excellent Standing''
      else if cgpa \<ge> 3.0 then ''Good Standing''
      else if cgpa \<ge> 2.5 then ''Satisfactory''
      else if cgpa \<ge> 2.0 then ''Warning''
      else ''Academic Probation'')"


section \<open>Test data\<close>

text \<open>
  The four courses of \<^verbatim>\<open>Test 2\<close> in \<^verbatim>\<open>GradeCalculator.main\<close>, and the same courses as
  objects of the JavaScript calculator.
\<close>

definition testCourses :: "GradeCalculator_Course list" where
  "testCourses =
    [ \<lparr>getTitle = ''Programming in Java'', getCredits = 3, getMarks = 88\<rparr>,
      \<lparr>getTitle = ''Data Structures'', getCredits = 3, getMarks = 92\<rparr>,
      \<lparr>getTitle = ''Database Management'', getCredits = 3, getMarks = 85\<rparr>,
      \<lparr>getTitle = ''Web Technologies'', getCredits = 3, getMarks = 90\<rparr> ]"

definition testCoursesJS :: "Course list" where
  "testCoursesJS =
    [ \<lparr>title = ''Programming in Java'', credits = 3, marks = 88\<rparr>,
      \<lparr>title = ''Data Structures'', credits = 3, marks = 92\<rparr>,
      \<lparr>title = ''Database Management'', credits = 3, marks = 85\<rparr>,
      \<lparr>title = ''Web Technologies'', credits = 3, marks = 90\<rparr> ]"

section \<open>Grade lookup at the band boundaries\<close>

text \<open>
  C1. At each of the marks 0, 49, 50, 59, 60, 64, 65, 69, 70, 74, 75, 79, 80, 84, 85, 89,
  90 and 100 the grade lookup returns the letter and the point of the band table
  [90,100] A+/4.00, [85,89] A/3.75, [80,84] B+/3.50, [75,79] B/3.25, [70,74] C+/3.00,
  [65,69] C/2.75, [60,64] D+/2.50, [50,59] D/2.25, [0,49] F/0.00, both ends of every
  band included. It holds of the JavaScript \<open>marksToGrade\<close> and of the Java one.
\<close>

theorem marksToGrade_band_boundaries:
  "map marksToGrade [0, 49, 50, 59, 60, 64, 65, 69, 70, 74, 75, 79, 80, 84, 85, 89, 90, 100] =
     [ \<lparr>grade = ''F'', point = 0\<rparr>, \<lparr>grade = ''F'', point = 0\<rparr>,
       \<lparr>grade = ''D'', point = 2.25\<rparr>, \<lparr>grade = ''D'', point = 2.25\<rparr>,
       \<lparr>grade = ''D+'', point = 2.5\<rparr>, \<lparr>grade = ''D+'', point = 2.5\<rparr>,
       \<lparr>grade = ''C'', point = 2.75\<rparr>, \<lparr>grade = ''C'', point = 2.75\<rparr>,
       \<lparr>grade = ''C+'', point = 3\<rparr>, \<lparr>grade = ''C+'', point = 3\<rparr>,
       \<lparr>grade = ''B'', point = 3.25\<rparr>, \<lparr>grade = ''B'', point = 3.25\<rparr>,
       \<lparr>grade = ''B+'', point = 3.5\<rparr>, \<lparr>grade = ''B+'', point = 3.5\<rparr>,
       \<lparr>grade = ''A'', point = 3.75\<rparr>, \<lparr>grade = ''A'', point = 3.75\<rparr>,
       \<lparr>grade = ''A+'', point = 4\<rparr>, \<lparr>grade = ''A+'', point = 4\<rparr> ]
   \<and> map GradeCalculator_marksToGrade
       [0, 49, 50, 59, 60, 64, 65, 69, 70, 74, 75, 79, 80, 84, 85, 89, 90, 100] =
     map Inr
     [ \<lparr>letterGrade = ''F'', gradePoint = 0\<rparr>, \<lparr>letterGrade = ''F'', gradePoint = 0\<rparr>,
       \<lparr>letterGrade = ''D'', gradePoint = 2.25\<rparr>, \<lparr>letterGrade = ''D'', gradePoint = 2.25\<rparr>,
       \<lparr>letterGrade = ''D+'', gradePoint = 2.5\<rparr>, \<lparr>letterGrade = ''D+'', gradePoint = 2.5\<rparr>,
       \<lparr>letterGrade = ''C'', gradePoint = 2.75\<rparr>, \<lparr>letterGrade = ''C'', gradePoint = 2.75\<rparr>,
       \<lparr>letterGrade = ''C+'', gradePoint = 3\<rparr>, \<lparr>letterGrade = ''C+'', gradePoint = 3\<rparr>,
       \<lparr>letterGrade = ''B'', gradePoint = 3.25\<rparr>, \<lparr>letterGrade = ''B'', gradePoint = 3.25\<rparr>,
       \<lparr>letterGrade = ''B+'', gradePoint = 3.5\<rparr>, \<lparr>letterGrade = ''B+'', gradePoint = 3.5\<rparr>,
       \<lparr>letterGrade = ''A'', gradePoint = 3.75\<rparr>, \<lparr>letterGrade = ''A'', gradePoint = 3.75\<rparr>,
       \<lparr>letterGrade = ''A+'', gradePoint = 4\<rparr>, \<lparr>letterGrade = ''A+'', gradePoint = 4\<rparr> ]"
  by (simp add: marksToGrade_def GRADING_SCALE_def
        GradeCalculator_marksToGrade_def GRADE_SCALE_def castToInt_def)

section \<open>The band scan and the gaps between the bands\<close>

text \<open>
  The bands of \<open>GRADING_SCALE\<close> end at 49, 59, 64, 69, 74, 79, 84 and 89 and the next
  ones begin at 50, 60, 65, 70, 75, 80, 85 and 90: for marks in [0, 100] the scan finds
  no band exactly when the marks lie strictly between two such neighbours. Whole marks
  always find a band.
\<close>

lemma scanScale_None_band:
  "scanScale m bands = None \<longleftrightarrow> (\<forall>b\<in>set bands. m < minMark b \<or> maxMark b < m)"
  by (induction bands) auto

lemma scanScale_None_iff:
  assumes "0 \<le> m" and "m \<le> 100"
  shows "scanScale m GRADING_SCALE = None \<longleftrightarrow>
     (49 < m \<and> m < 50) \<or> (59 < m \<and> m < 60) \<or> (64 < m \<and> m < 65) \<or> (69 < m \<and> m < 70) \<or>
     (74 < m \<and> m < 75) \<or> (79 < m \<and> m < 80) \<or> (84 < m \<and> m < 85) \<or> (89 < m \<and> m < 90)"
    (is "?scan \<longleftrightarrow> ?gap")
proof
  assume ?scan
  then have "(m < 90 \<or> 100 < m) \<and> (m < 85 \<or> 89 < m) \<and> (m < 80 \<or> 84 < m)
      \<and> (m < 75 \<or> 79 < m) \<and> (m < 70 \<or> 74 < m) \<and> (m < 65 \<or> 69 < m)
      \<and> (m < 60 \<or> 64 < m) \<and> (m < 50 \<or> 59 < m) \<and> (m < 0 \<or> 49 < m)"
    by (simp add: scanScale_None_band GRADING_SCALE_def del: scanScale.simps)
  with assms show ?gap
    by argo
next
  assume ?gap
  then show ?scan
    by (elim disjE conjE) (simp_all add: GRADING_SCALE_def)
qed

lemma scanScale_whole_marks:
  assumes "0 \<le> n" and "n \<le> 100"
  shows "scanScale (real_of_int n) GRADING_SCALE \<noteq> None"
proof -
  have "0 \<le> real_of_int n" and "real_of_int n \<le> 100"
    using assms by simp_all
  then show ?thesis
    by (simp add: GRADING_SCALE_def)
qed

text \<open>
  C2. The claim: for every marks in [0, 100], whole or fractional, the band scan finds a
  band, so that the return after the loop of \<open>marksToGrade\<close> is never reached. The
  marks 89.5 (the marks field of the page steps by 0.5) lie in [0, 100] and in no band:
  the scan ends without a match, and the return after the loop gives F / 0.0. The Java
  lookup, which takes the floor of the marks, gives A / 3.75 for the same marks.
\<close>

theorem marksToGrade_fallback_reached:
  "(0::real) \<le> 89.5 \<and> (89.5::real) \<le> 100
   \<and> scanScale 89.5 GRADING_SCALE = None
   \<and> marksToGrade 89.5 = \<lparr>grade = ''F'', point = 0\<rparr>
   \<and> GradeCalculator_marksToGrade 89.5 = Inr \<lparr>letterGrade = ''A'', gradePoint = 3.75\<rparr>"
  by (simp add: marksToGrade_def GRADING_SCALE_def
        GradeCalculator_marksToGrade_def GRADE_SCALE_def castToInt_def)

section \<open>Semester GPA\<close>

subsection \<open>The totals of the JavaScript function\<close>

lemma marksToGrade_point_range:
  "0 \<le> point (marksToGrade m) \<and> point (marksToGrade m) \<le> 4"
  by (simp add: marksToGrade_def GRADING_SCALE_def)


lemma overflowThreshold_large: "4 * (10::real) ^ 300 < overflowThreshold"
  by (simp add: overflowThreshold_def)

lemma toNumber_Finite: "\<bar>r\<bar> < overflowThreshold \<Longrightarrow> toNumber r = Finite r"
  by (auto simp add: toNumber_def)

lemma weighted_point_abs:
  "\<bar>point (marksToGrade m) * c\<bar> \<le> 4 * \<bar>c\<bar>"
proof -
  have "\<bar>point (marksToGrade m) * c\<bar> = point (marksToGrade m) * \<bar>c\<bar>"
    using marksToGrade_point_range [of m] by (simp add: abs_mult)
  also have "\<dots> \<le> 4 * \<bar>c\<bar>"
    using marksToGrade_point_range [of m] by (intro mult_right_mono) simp_all
  finally show ?thesis .
qed

text \<open>
  While the magnitudes of the credits are small enough, no product and no total leaves
  the finite range, and the loop reaches the two exact sums.
\<close>

lemma foldl_addCourseTotals:
  assumes "\<bar>p\<bar> + 4 * (\<Sum>c\<leftarrow>courses. \<bar>credits c\<bar>) < overflowThreshold"
    and "\<bar>q\<bar> + (\<Sum>c\<leftarrow>courses. \<bar>credits c\<bar>) < overflowThreshold"
  shows "foldl addCourseTotals (Finite p, Finite q) courses =
     (Finite (p + (\<Sum>c\<leftarrow>courses. point (marksToGrade (marks c)) * credits c)),
      Finite (q + (\<Sum>c\<leftarrow>courses. credits c)))"
  using assms
proof (induction courses arbitrary: p q)
  case Nil
  then show ?case by simp
next
  case (Cons c cs)
  let ?w = "point (marksToGrade (marks c)) * credits c"
  let ?A = "\<Sum>c\<leftarrow>cs. \<bar>credits c\<bar>"
  have A0: "0 \<le> ?A"
    by (intro sum_list_nonneg) auto
  have w: "\<bar>?w\<bar> \<le> 4 * \<bar>credits c\<bar>"
    by (rule weighted_point_abs)
  have p_bound: "\<bar>p\<bar> + 4 * \<bar>credits c\<bar> + 4 * ?A < overflowThreshold"
    using Cons.prems(1) by (simp add: algebra_simps)
  have q_bound: "\<bar>q\<bar> + \<bar>credits c\<bar> + ?A < overflowThreshold"
    using Cons.prems(2) by (simp add: algebra_simps)
  have "\<bar>?w\<bar> < overflowThreshold"
    using w p_bound A0 by linarith
  then have product: "toNumber ?w = Finite ?w"
    by (rule toNumber_Finite)
  have "\<bar>p + ?w\<bar> < overflowThreshold"
    using w p_bound A0 by linarith
  then have points: "toNumber (p + ?w) = Finite (p + ?w)"
    by (rule toNumber_Finite)
  have "\<bar>q + credits c\<bar> < overflowThreshold"
    using q_bound A0 by linarith
  then have creds: "toNumber (q + credits c) = Finite (q + credits c)"
    by (rule toNumber_Finite)
  have step: "addCourseTotals (Finite p, Finite q) c = (Finite (p + ?w), Finite (q + credits c))"
    by (simp add: addCourseTotals_def Let_def product points creds)
  have "\<bar>p + ?w\<bar> + 4 * ?A < overflowThreshold"
    using w p_bound by linarith
  moreover have "\<bar>q + credits c\<bar> + ?A < overflowThreshold"
    using q_bound by linarith
  ultimately have "foldl addCourseTotals (Finite (p + ?w), Finite (q + credits c)) cs =
     (Finite (p + ?w + (\<Sum>c\<leftarrow>cs. point (marksToGrade (marks c)) * credits c)),
      Finite (q + credits c + (\<Sum>c\<leftarrow>cs. credits c)))"
    by (rule Cons.IH)
  then show ?case
    by (simp add: step add.assoc)
qed

lemma calculateSemesterGPA_sums:
  assumes "4 * (\<Sum>c\<leftarrow>courses. \<bar>credits c\<bar>) < overflowThreshold"
  shows "calculateSemesterGPA courses =
     (if (\<Sum>c\<leftarrow>courses. credits c) > 0
      then toNumber ((\<Sum>c\<leftarrow>courses. point (marksToGrade (marks c)) * credits c)
                      / (\<Sum>c\<leftarrow>courses. credits c))
      else Finite 0)"
proof -
  have A0: "0 \<le> (\<Sum>c\<leftarrow>courses. \<bar>credits c\<bar>)"
    by (intro sum_list_nonneg) auto
  have p: "\<bar>0::real\<bar> + 4 * (\<Sum>c\<leftarrow>courses. \<bar>credits c\<bar>) < overflowThreshold"
    using assms by simp
  have q: "\<bar>0::real\<bar> + (\<Sum>c\<leftarrow>courses. \<bar>credits c\<bar>) < overflowThreshold"
    using assms A0 by simp
  show ?thesis
    by (simp add: calculateSemesterGPA_def Let_def foldl_addCourseTotals [OF p q])
qed

lemma weighted_points_bounds:
  assumes "\<forall>c\<in>set courses. credits c \<ge> 0"
  shows "0 \<le> (\<Sum>c\<leftarrow>courses. point (marksToGrade (marks c)) * credits c)"
    and "(\<Sum>c\<leftarrow>courses. point (marksToGrade (marks c)) * credits c)
           \<le> 4 * (\<Sum>c\<leftarrow>courses. credits c)"
proof -
  show "0 \<le> (\<Sum>c\<leftarrow>courses. point (marksToGrade (marks c)) * credits c)"
    using assms by (intro sum_list_nonneg) (auto simp: marksToGrade_point_range)
  have "(\<Sum>c\<leftarrow>courses. point (marksToGrade (marks c)) * credits c)
          \<le> (\<Sum>c\<leftarrow>courses. 4 * credits c)"
    using assms by (intro sum_list_mono mult_right_mono) (auto simp: marksToGrade_point_range)
  then show "(\<Sum>c\<leftarrow>courses. point (marksToGrade (marks c)) * credits c)
               \<le> 4 * (\<Sum>c\<leftarrow>courses. credits c)"
    by (simp add: sum_list_const_mult)
qed

lemma sum_list_abs_credits:
  assumes "\<forall>c\<in>set courses. credits c \<ge> 0"
  shows "(\<Sum>c\<leftarrow>courses. \<bar>credits c\<bar>) = (\<Sum>c\<leftarrow>courses. credits c)"
  using assms by (induction courses) simp_all

text \<open>
  With credits that are not negative and sum to at most \<open>10^300\<close>, the result is the
  finite weighted average, in [0, 4].
\<close>

lemma calculateSemesterGPA_finite:
  assumes nonneg: "\<forall>c\<in>set courses. credits c \<ge> 0"
    and small: "(\<Sum>c\<leftarrow>courses. credits c) \<le> 10 ^ 300"
  shows "calculateSemesterGPA courses =
     Finite (if (\<Sum>c\<leftarrow>courses. credits c) > 0
             then (\<Sum>c\<leftarrow>courses. point (marksToGrade (marks c)) * credits c)
                    / (\<Sum>c\<leftarrow>courses. credits c)
             else 0)"
    and "0 \<le> (if (\<Sum>c\<leftarrow>courses. credits c) > 0
             then (\<Sum>c\<leftarrow>courses. point (marksToGrade (marks c)) * credits c)
                    / (\<Sum>c\<leftarrow>courses. credits c)
             else 0)"
    and "(if (\<Sum>c\<leftarrow>courses. credits c) > 0
             then (\<Sum>c\<leftarrow>courses. point (marksToGrade (marks c)) * credits c)
                    / (\<Sum>c\<leftarrow>courses. credits c)
             else 0) \<le> 4"
proof -
  let ?P = "\<Sum>c\<leftarrow>courses. point (marksToGrade (marks c)) * credits c"
  let ?C = "\<Sum>c\<leftarrow>courses. credits c"
  note bounds = weighted_points_bounds [OF nonneg]
  show lower: "0 \<le> (if ?C > 0 then ?P / ?C else 0)"
    using bounds by simp
  show upper: "(if ?C > 0 then ?P / ?C else 0) \<le> 4"
    using bounds by (simp add: divide_le_eq)
  have "4 * (\<Sum>c\<leftarrow>courses. \<bar>credits c\<bar>) \<le> 4 * 10 ^ 300"
    using small by (simp add: sum_list_abs_credits [OF nonneg])
  then have range: "4 * (\<Sum>c\<leftarrow>courses. \<bar>credits c\<bar>) < overflowThreshold"
    using overflowThreshold_large by linarith
  have "\<bar>?P / ?C\<bar> < overflowThreshold" if "?C > 0"
  proof -
    have "0 \<le> ?P / ?C" and "?P / ?C \<le> 4"
      using lower upper that by simp_all
    moreover have "(4::real) < overflowThreshold"
      using overflowThreshold_large by simp
    ultimately show ?thesis by simp
  qed
  then show "calculateSemesterGPA courses = Finite (if ?C > 0 then ?P / ?C else 0)"
    by (simp add: calculateSemesterGPA_sums [OF range] toNumber_Finite)
qed

subsection \<open>The totals of the Java method\<close>





subsection \<open>The weighted average\<close>




subsection \<open>The test courses\<close>

text \<open>
  C8. The claim: for the four courses (3 credits each; marks 88, 92, 85, 90) the semester
  GPA is about 3.75. The grades are A, A+, A, A+, and the result is 3.875, which is
  0.125 away from 3.75.
\<close>

theorem semester_example_not_3_75:
  "calculateSemesterGPA
     [ \<lparr>title = ''Programming in Java'', credits = 3, marks = 88\<rparr>,
       \<lparr>title = ''Data Structures'', credits = 3, marks = 92\<rparr>,
       \<lparr>title = ''Database Management'', credits = 3, marks = 85\<rparr>,
       \<lparr>title = ''Web Technologies'', credits = 3, marks = 90\<rparr> ] = Finite 3.875
   \<and> \<not> \<bar>(3.875 :: real) - 3.75\<bar> < 0.125"
  by (simp add: calculateSemesterGPA_def addCourseTotals_def marksToGrade_def
        GRADING_SCALE_def toNumber_def overflowThreshold_def Let_def)

text \<open>
  C8, amended. For the four courses the semester GPA is exactly 3.875, in the JavaScript
  calculator and in the Java one.
\<close>

theorem semester_example_value:
  "calculateSemesterGPA testCoursesJS = Finite 3.875
   \<and> GradeCalculator_calculateSemesterGPA (Some testCourses) = Inr 3.875"
  by (simp add: calculateSemesterGPA_def addCourseTotals_def marksToGrade_def
        GRADING_SCALE_def testCoursesJS_def testCourses_def toNumber_def overflowThreshold_def
        Let_def GradeCalculator_calculateSemesterGPA_def GradeCalculator_marksToGrade_def
        GRADE_SCALE_def castToInt_def)

subsection \<open>The range of the semester GPA\<close>

text \<open>
  C9. The claim: when every course of the list has positive credits, the semester GPA
  lies in [0, 4]. With \<open>2^1023\<close> credits (a double) and the marks 95 it does not: the
  product \<open>4 * 2^1023\<close> is \<^verbatim>\<open>Infinity\<close>, so one such course gives \<^verbatim>\<open>Infinity\<close>, and two of
  them, whose credits sum to \<^verbatim>\<open>Infinity\<close> as well, give \<^verbatim>\<open>NaN\<close>.
\<close>

theorem calculateSemesterGPA_overflows:
  "(0 :: real) < 2 ^ 1023
   \<and> calculateSemesterGPA
       [ \<lparr>title = ''Data Structures'', credits = 2 ^ 1023, marks = 95\<rparr> ] = PosInfinity
   \<and> calculateSemesterGPA
       [ \<lparr>title = ''Data Structures'', credits = 2 ^ 1023, marks = 95\<rparr>,
         \<lparr>title = ''Web Technologies'', credits = 2 ^ 1023, marks = 95\<rparr> ] = NaN"
  by (simp add: calculateSemesterGPA_def addCourseTotals_def marksToGrade_def
        GRADING_SCALE_def toNumber_def overflowThreshold_def Let_def)

text \<open>
  C9, amended. When every course of the list has positive credits and the credits sum
  to at most \<open>10^300\<close>, the semester GPA is finite and lies in [0, 4]: every grade point
  that \<open>marksToGrade\<close> returns, for any marks, lies in [0, 4], and the GPA is their average
  weighted by the credits.
\<close>

theorem calculateSemesterGPA_range:
  assumes "\<forall>c\<in>set courses. credits c > 0"
    and "(\<Sum>c\<leftarrow>courses. credits c) \<le> 10 ^ 300"
  shows "(0 \<le> point (marksToGrade m) \<and> point (marksToGrade m) \<le> 4)
         \<and> (\<exists>gpa. calculateSemesterGPA courses = Finite gpa \<and> 0 \<le> gpa \<and> gpa \<le> 4)"
proof -
  have nonneg: "\<forall>c\<in>set courses. credits c \<ge> 0"
    using assms(1) by (simp add: less_imp_le)
  from calculateSemesterGPA_finite [OF nonneg assms(2)]
  have "\<exists>gpa. calculateSemesterGPA courses = Finite gpa \<and> 0 \<le> gpa \<and> gpa \<le> 4"
    by blast
  with marksToGrade_point_range [of m] show ?thesis
    by blast
qed

theorem calculateSemesterGPA_range_witness:
  "list_all (\<lambda>c. credits c > 0) testCoursesJS
   \<and> (\<Sum>c\<leftarrow>testCoursesJS. credits c) \<le> 10 ^ 300
   \<and> 0 \<le> point (marksToGrade 120) \<and> point (marksToGrade 120) \<le> 4
   \<and> (\<exists>gpa. calculateSemesterGPA testCoursesJS = Finite gpa \<and> 0 \<le> gpa \<and> gpa \<le> 4)"
proof -
  have credits_positive: "\<forall>c\<in>set testCoursesJS. credits c > 0"
    by (simp add: testCoursesJS_def)
  have credits_small: "(\<Sum>c\<leftarrow>testCoursesJS. credits c) \<le> 10 ^ 300"
    by (simp add: testCoursesJS_def)
  have "list_all (\<lambda>c. credits c > 0) testCoursesJS"
    by (simp add: testCoursesJS_def)
  with calculateSemesterGPA_range [OF credits_positive credits_small, of 120] credits_small
  show ?thesis
    by blast
qed

subsection \<open>A course with marks out of range\<close>






section \<open>Cumulative CGPA\<close>

lemma calculateCumulativeCGPA_formula:
  "calculateCumulativeCGPA prevCGPA prevCredits currentGPA currentCredits =
     (if prevCredits + currentCredits > 0
      then (prevCGPA * prevCredits + currentGPA * currentCredits) / (prevCredits + currentCredits)
      else 0)"
  by (simp add: calculateCumulativeCGPA_def Let_def)


lemma GradeCalculator_calculateCumulativeCGPA_throws:
  "sint previousCredits < 0 \<or> sint currentCredits < 0 \<Longrightarrow>
     GradeCalculator_calculateCumulativeCGPA previousCGPA previousCredits
       currentGPA currentCredits =
     Inl (IllegalArgumentException ''Credits cannot be negative'')"
  "0 \<le> sint previousCredits \<Longrightarrow> 0 \<le> sint currentCredits \<Longrightarrow>
   previousCGPA < 0 \<or> previousCGPA > 4 \<Longrightarrow>
     GradeCalculator_calculateCumulativeCGPA previousCGPA previousCredits
       currentGPA currentCredits =
     Inl (IllegalArgumentException ''CGPA must be between 0.0 and 4.0'')"
  by (auto simp add: GradeCalculator_calculateCumulativeCGPA_def)

lemma calculateCGPA_alerts:
  "currentCGPA < 0 \<or> currentCGPA > 4 \<Longrightarrow>
     calculateCGPA currentCGPA completedCredits courseRows =
       Alert ''Current CGPA must be between 0.0 and 4.0''"
  "0 \<le> currentCGPA \<Longrightarrow> currentCGPA \<le> 4 \<Longrightarrow> completedCredits < 0 \<Longrightarrow>
     calculateCGPA currentCGPA completedCredits courseRows =
       Alert ''Completed credits cannot be negative''"
  by (auto simp add: calculateCGPA_def)




text \<open>
  C5. The claim: \<open>calculateCumulativeCGPA\<close> signals an invalid argument whenever a
  credits argument is negative or the previous CGPA lies outside [0, 4]. The JavaScript
  function checks nothing: for (3, -1, 3, 5) it returns the blend
  (3 * (-1) + 3 * 5) / (-1 + 5) = 3.
\<close>

theorem calculateCumulativeCGPA_negative_credits_returns:
  "calculateCumulativeCGPA 3 (- 1) 3 5 = (3 * (- 1) + 3 * 5) / (- 1 + 5)
   \<and> calculateCumulativeCGPA 3 (- 1) 3 5 = 3"
  by (simp add: calculateCumulativeCGPA_def Let_def)

text \<open>
  C5, amended. The Java \<open>calculateCumulativeCGPA\<close> throws IllegalArgumentException
  whenever \<open>previousCredits < 0\<close>, \<open>currentCredits < 0\<close> or the previous CGPA lies outside
  [0, 4]. The JavaScript function of that name makes no check and returns the blend (or
  0.0 when the credit sum is not positive); there the checks are made by its caller
  \<open>calculateCGPA\<close>, which ends in an alert, before any call, when the current CGPA lies
  outside [0, 4] or the completed credits are negative.
\<close>

theorem calculateCumulativeCGPA_argument_checks:
  "(sint jPrevCredits < 0 \<or> sint jCurrentCredits < 0 \<longrightarrow>
      GradeCalculator_calculateCumulativeCGPA prevCGPA jPrevCredits currentGPA jCurrentCredits =
        Inl (IllegalArgumentException ''Credits cannot be negative''))
   \<and> (0 \<le> sint jPrevCredits \<and> 0 \<le> sint jCurrentCredits \<and> (prevCGPA < 0 \<or> prevCGPA > 4) \<longrightarrow>
      GradeCalculator_calculateCumulativeCGPA prevCGPA jPrevCredits currentGPA jCurrentCredits =
        Inl (IllegalArgumentException ''CGPA must be between 0.0 and 4.0''))
   \<and> calculateCumulativeCGPA prevCGPA prevCredits currentGPA currentCredits =
       (if prevCredits + currentCredits > 0
        then (prevCGPA * prevCredits + currentGPA * currentCredits)
               / (prevCredits + currentCredits)
        else 0)
   \<and> (prevCGPA < 0 \<or> prevCGPA > 4 \<longrightarrow>
        calculateCGPA prevCGPA prevCredits courseRows =
          Alert ''Current CGPA must be between 0.0 and 4.0'')
   \<and> (0 \<le> prevCGPA \<and> prevCGPA \<le> 4 \<and> prevCredits < 0 \<longrightarrow>
        calculateCGPA prevCGPA prevCredits courseRows =
          Alert ''Completed credits cannot be negative'')"
  using GradeCalculator_calculateCumulativeCGPA_throws
      [of jPrevCredits jCurrentCredits prevCGPA currentGPA]
    calculateCGPA_alerts [of prevCGPA prevCredits courseRows]
    calculateCumulativeCGPA_formula [of prevCGPA prevCredits currentGPA currentCredits]
  by blast

theorem calculateCumulativeCGPA_argument_checks_witness:
  "sint (- 1 :: jint) < 0
   \<and> GradeCalculator_calculateCumulativeCGPA 3 (- 1) 3 5 =
       Inl (IllegalArgumentException ''Credits cannot be negative'')
   \<and> 0 \<le> sint (36 :: jint) \<and> 0 \<le> sint (12 :: jint) \<and> (4 :: real) < 4.5
   \<and> GradeCalculator_calculateCumulativeCGPA 4.5 36 3 12 =
       Inl (IllegalArgumentException ''CGPA must be between 0.0 and 4.0'')
   \<and> calculateCGPA 4.5 36 [] = Alert ''Current CGPA must be between 0.0 and 4.0''
   \<and> calculateCGPA 3 (- 1) [] = Alert ''Completed credits cannot be negative''"
  using calculateCumulativeCGPA_argument_checks [of "- 1" 5 3 3 "- 1" 5 "[]"]
    calculateCumulativeCGPA_argument_checks [of 36 12 "4.5" 3 36 12 "[]"]
  by simp

section \<open>Academic status\<close>

text \<open>
  C6. For a CGPA in [0, 4] the status is decided by the first band that matches, from
  the top: 3.75 and above is Dean's List, [3.50, 3.75) Excellent Standing, [3.00, 3.50)
  Good Standing, [2.50, 3.00) Satisfactory, [2.00, 2.50) Warning, below 2.00 Academic
  Probation; so 3.75 is Dean's List, 3.749999 Excellent Standing, 2.0 Warning and
  1.999999 Academic Probation. It holds of the JavaScript function (the text of its
  result) and of the Java method.
\<close>

theorem getAcademicStatus_bands:
  assumes "0 \<le> cgpa" and "cgpa \<le> 4"
  shows
    "(3.75 \<le> cgpa \<longrightarrow>
        statusText (getAcademicStatus cgpa) = ''Dean's List''
        \<and> GradeCalculator_getAcademicStatus cgpa = ''Dean's List'')
     \<and> (3.5 \<le> cgpa \<and> cgpa < 3.75 \<longrightarrow>
        statusText (getAcademicStatus cgpa) = ''Excellent Standing''
        \<and> GradeCalculator_getAcademicStatus cgpa = ''Excellent Standing'')
     \<and> (3 \<le> cgpa \<and> cgpa < 3.5 \<longrightarrow>
        statusText (getAcademicStatus cgpa) = ''Good Standing''
        \<and> GradeCalculator_getAcademicStatus cgpa = ''Good Standing'')
     \<and> (2.5 \<le> cgpa \<and> cgpa < 3 \<longrightarrow>
        statusText (getAcademicStatus cgpa) = ''Satisfactory''
        \<and> GradeCalculator_getAcademicStatus cgpa = ''Satisfactory'')
     \<and> (2 \<le> cgpa \<and> cgpa < 2.5 \<longrightarrow>
        statusText (getAcademicStatus cgpa) = ''Warning''
        \<and> GradeCalculator_getAcademicStatus cgpa = ''Warning'')
     \<and> (cgpa < 2 \<longrightarrow>
        statusText (getAcademicStatus cgpa) = ''Academic Probation''
        \<and> GradeCalculator_getAcademicStatus cgpa = ''Academic Probation'')
     \<and> statusText (getAcademicStatus 3.75) = ''Dean's List''
     \<and> statusText (getAcademicStatus 3.749999) = ''Excellent Standing''
     \<and> statusText (getAcademicStatus 2.0) = ''Warning''
     \<and> statusText (getAcademicStatus 1.999999) = ''Academic Probation''
     \<and> GradeCalculator_getAcademicStatus 3.75 = ''Dean's List''
     \<and> GradeCalculator_getAcademicStatus 3.749999 = ''Excellent Standing''
     \<and> GradeCalculator_getAcademicStatus 2.0 = ''Warning''
     \<and> GradeCalculator_getAcademicStatus 1.999999 = ''Academic Probation''"
  using assms by (simp add: getAcademicStatus_def GradeCalculator_getAcademicStatus_def)

theorem getAcademicStatus_bands_witness:
  "(0 :: real) \<le> 3.2 \<and> (3.2 :: real) \<le> 4 \<and> (3 :: real) \<le> 3.2 \<and> (3.2 :: real) < 3.5
   \<and> statusText (getAcademicStatus 3.2) = ''Good Standing''
   \<and> GradeCalculator_getAcademicStatus 3.2 = ''Good Standing''"
  using getAcademicStatus_bands [of "3.2"] by simp

text \<open>
  C7. The claim: for a CGPA outside [0, 4] the status is an Invalid label and none of the
  six standing labels. The JavaScript \<open>getAcademicStatus\<close> has no such label: for 4.5 it
  returns Dean's List and for -0.5 Academic Probation.
\<close>

theorem getAcademicStatus_out_of_range_labels:
  "statusText (getAcademicStatus 4.5) = ''Dean's List''
   \<and> statusText (getAcademicStatus (- 0.5)) = ''Academic Probation''"
  by (simp add: getAcademicStatus_def)

text \<open>
  C7, amended. The Java \<open>getAcademicStatus\<close> returns the label Invalid CGPA, which is none
  of the six standing labels, for every CGPA outside [0, 4]. The JavaScript
  \<open>getAcademicStatus\<close> has no Invalid label: it returns Dean's List for every CGPA above 4
  and Academic Probation for every CGPA below 0.
\<close>

theorem getAcademicStatus_out_of_range:
  "(cgpa < 0 \<or> cgpa > 4 \<longrightarrow>
      GradeCalculator_getAcademicStatus cgpa = ''Invalid CGPA''
      \<and> GradeCalculator_getAcademicStatus cgpa \<notin>
          {''Dean's List'', ''Excellent Standing'', ''Good Standing'', ''Satisfactory'',
           ''Warning'', ''Academic Probation''})
   \<and> (cgpa > 4 \<longrightarrow> statusText (getAcademicStatus cgpa) = ''Dean's List'')
   \<and> (cgpa < 0 \<longrightarrow> statusText (getAcademicStatus cgpa) = ''Academic Probation'')"
  by (simp add: getAcademicStatus_def GradeCalculator_getAcademicStatus_def)

theorem getAcademicStatus_out_of_range_witness:
  "(4 :: real) < 4.5 \<and> GradeCalculator_getAcademicStatus 4.5 = ''Invalid CGPA''
   \<and> (- 0.5 :: real) < 0 \<and> GradeCalculator_getAcademicStatus (- 0.5) = ''Invalid CGPA''"
  using getAcademicStatus_out_of_range [of "4.5"] getAcademicStatus_out_of_range [of "- 0.5"]
  by simp

text \<open>
  A blend of a previous CGPA in [0, 4] and a semester GPA in [0, 4], with credits that
  are not negative and not both 0, lies in [0, 4] again: with the checks of
  \<open>calculateCGPA\<close> and finite values, the CGPA that reaches \<open>getAcademicStatus\<close> in the
  page is in range.
\<close>

lemma calculateCumulativeCGPA_in_range:
  assumes "0 \<le> prevCGPA" and "prevCGPA \<le> 4" and "0 \<le> prevCredits"
    and "0 \<le> currentGPA" and "currentGPA \<le> 4" and "0 < currentCredits"
  shows "0 \<le> calculateCumulativeCGPA prevCGPA prevCredits currentGPA currentCredits
    \<and> calculateCumulativeCGPA prevCGPA prevCredits currentGPA currentCredits \<le> 4"
proof -
  have total: "prevCredits + currentCredits > 0"
    using assms by simp
  have lower: "0 \<le> prevCGPA * prevCredits + currentGPA * currentCredits"
    using assms by (simp add: less_imp_le)
  have "prevCGPA * prevCredits \<le> 4 * prevCredits"
    using assms by (intro mult_right_mono) simp_all
  moreover have "currentGPA * currentCredits \<le> 4 * currentCredits"
    using assms by (intro mult_right_mono) simp_all
  ultimately have upper:
    "prevCGPA * prevCredits + currentGPA * currentCredits \<le> 4 * (prevCredits + currentCredits)"
    by (simp add: algebra_simps)
  show ?thesis
    unfolding calculateCumulativeCGPA_def Let_def
    using total lower upper by (simp add: divide_le_eq)
qed

end
